theory Spec2Isabelle
  imports Complex_Main "HOL-Library.Multiset"
begin

section \<open>S-BrainXcan: allele harmonization, chromosome aggregation and marginal test\<close>

text \<open>
  A shallow embedding of \<^verbatim>\<open>src/brainxcan/sbxcan/run_sbrainxcan.py\<close>.
  The definitions come first, in the order of the source file; the lemmas and the
  theorems about them follow.
\<close>

subsection \<open>Numbers held in numpy arrays and pandas columns\<close>

text \<open>
  A float64 value is a finite number, one of the two infinities, or NaN. Rounding is
  not modelled: a finite float stands for the real number it denotes, and the two
  signed zeros are one value \<open>Fin 0\<close> (taken as +0 where a sign is needed). The
  operations below follow IEEE 754 and numpy on the special values: NaN is absorbing,
  \<open>inf - inf\<close>, \<open>0 * inf\<close>, \<open>0 / 0\<close> and \<open>inf / inf\<close> are NaN, and a division
  of a nonzero number by zero is an infinity (numpy gives a warning, not an exception).
\<close>

datatype fl = Fin real | PInf | NInf | NaN

fun isnan :: "fl \<Rightarrow> bool" where
  "isnan NaN = True"
| "isnan _ = False"

fun fl_neg :: "fl \<Rightarrow> fl" where
  "fl_neg (Fin x) = Fin (- x)"
| "fl_neg PInf = NInf"
| "fl_neg NInf = PInf"
| "fl_neg NaN = NaN"

fun fl_add :: "fl \<Rightarrow> fl \<Rightarrow> fl" where
  "fl_add (Fin x) (Fin y) = Fin (x + y)"
| "fl_add NaN _ = NaN"
| "fl_add _ NaN = NaN"
| "fl_add PInf NInf = NaN"
| "fl_add NInf PInf = NaN"
| "fl_add PInf _ = PInf"
| "fl_add _ PInf = PInf"
| "fl_add NInf _ = NInf"
| "fl_add _ NInf = NInf"

definition fl_sub :: "fl \<Rightarrow> fl \<Rightarrow> fl" where
  "fl_sub a b = fl_add a (fl_neg b)"

fun fl_mult :: "fl \<Rightarrow> fl \<Rightarrow> fl" where
  "fl_mult (Fin x) (Fin y) = Fin (x * y)"
| "fl_mult NaN _ = NaN"
| "fl_mult _ NaN = NaN"
| "fl_mult (Fin x) PInf = (if x = 0 then NaN else if 0 < x then PInf else NInf)"
| "fl_mult (Fin x) NInf = (if x = 0 then NaN else if 0 < x then NInf else PInf)"
| "fl_mult PInf (Fin y) = (if y = 0 then NaN else if 0 < y then PInf else NInf)"
| "fl_mult NInf (Fin y) = (if y = 0 then NaN else if 0 < y then NInf else PInf)"
| "fl_mult PInf PInf = PInf"
| "fl_mult PInf NInf = NInf"
| "fl_mult NInf PInf = NInf"
| "fl_mult NInf NInf = PInf"

fun fl_div :: "fl \<Rightarrow> fl \<Rightarrow> fl" where
  "fl_div (Fin x) (Fin y) =
     (if y \<noteq> 0 then Fin (x / y)
      else if x = 0 then NaN else if 0 < x then PInf else NInf)"
| "fl_div NaN _ = NaN"
| "fl_div _ NaN = NaN"
| "fl_div (Fin x) _ = Fin 0"
| "fl_div PInf (Fin y) = (if 0 \<le> y then PInf else NInf)"
| "fl_div NInf (Fin y) = (if 0 \<le> y then NInf else PInf)"
| "fl_div _ _ = NaN"

fun fl_sqrt :: "fl \<Rightarrow> fl" where
  "fl_sqrt (Fin x) = (if 0 \<le> x then Fin (sqrt x) else NaN)"
| "fl_sqrt PInf = PInf"
| "fl_sqrt _ = NaN"


text \<open>\<^verbatim>\<open>np.power(x, 2)\<close>: the square.\<close>

definition fl_power2 :: "fl \<Rightarrow> fl" where
  "fl_power2 x = fl_mult x x"

text \<open>Comparisons: every comparison with NaN is false.\<close>

fun fl_le :: "fl \<Rightarrow> fl \<Rightarrow> bool" where
  "fl_le NaN _ = False"
| "fl_le _ NaN = False"
| "fl_le (Fin x) (Fin y) = (x \<le> y)"
| "fl_le NInf _ = True"
| "fl_le _ PInf = True"
| "fl_le _ _ = False"



definition fl_sum :: "fl list \<Rightarrow> fl" where
  "fl_sum xs = foldr fl_add xs (Fin 0)"

text \<open>Indexing with a boolean array, \<^verbatim>\<open>a[m]\<close>: the entries where the mask holds.\<close>

definition bool_index :: "bool list \<Rightarrow> 'a list \<Rightarrow> 'a list" where
  "bool_index m xs = map snd (filter fst (zip m xs))"

text \<open>\<^verbatim>\<open>a[np.isnan(a)] = c\<close>, on one entry.\<close>

definition nan_to :: "real \<Rightarrow> fl \<Rightarrow> fl" where
  "nan_to c x = (if isnan x then Fin c else x)"

subsection \<open>Alleles and \<^verbatim>\<open>_check_flip\<close>\<close>

text \<open>
  An allele is a Python string, or missing (\<^verbatim>\<open>np.nan\<close>, here \<open>None\<close>).
  \<^verbatim>\<open>BASE_PAIR\<close> is a dict: looking up a string that is not a key raises
  \<^verbatim>\<open>KeyError\<close>.
\<close>

type_synonym allele = "string option"

datatype error = KeyError | ValueError | AttributeError

definition BASE_PAIR :: "string \<rightharpoonup> string" where
  "BASE_PAIR = [''A'' \<mapsto> ''T'', ''T'' \<mapsto> ''A'', ''G'' \<mapsto> ''C'', ''C'' \<mapsto> ''G'']"

text \<open>
  \<^verbatim>\<open>_check_flip(a0, a1, b0, b1)\<close> (the name cannot start with an underscore here).
  The lookups happen in the order of the source: \<^verbatim>\<open>BASE_PAIR[a1]\<close>, then
  \<^verbatim>\<open>BASE_PAIR[b1]\<close> (only when the first test of the \<^verbatim>\<open>or\<close> is false),
  then \<^verbatim>\<open>BASE_PAIR[b0]\<close>; \<^verbatim>\<open>a0\<close> is never looked up.
\<close>

fun u_check_flip :: "allele \<Rightarrow> allele \<Rightarrow> allele \<Rightarrow> allele \<Rightarrow> error + fl" where
  "u_check_flip (Some a0) (Some a1) (Some b0) (Some b1) =
     (case BASE_PAIR a1 of
        None \<Rightarrow> Inl KeyError
      | Some ca1 \<Rightarrow>
          if a0 = ca1 then Inr NaN
          else (case BASE_PAIR b1 of
            None \<Rightarrow> Inl KeyError
          | Some cb1 \<Rightarrow>
              if b0 = cb1 then Inr NaN
              else if a0 = b0 \<and> a1 = b1 then Inr (Fin 1)
              else if a0 = b1 \<and> a1 = b0 then Inr (Fin (- 1))
              else (case BASE_PAIR b0 of
                None \<Rightarrow> Inl KeyError
              | Some cb0 \<Rightarrow>
                  if a0 = cb0 \<and> a1 = cb1 then Inr (Fin 1)
                  else if a0 = cb1 \<and> a1 = cb0 then Inr (Fin (- 1))
                  else Inr NaN)))"
| "u_check_flip _ _ _ _ = Inr NaN"

text \<open>\<^verbatim>\<open>check_flip\<close>: the loop over the zipped columns; the first exception ends it.\<close>

fun check_flip :: "allele list \<Rightarrow> allele list \<Rightarrow> allele list \<Rightarrow> allele list \<Rightarrow> error + fl list" where
  "check_flip (a1 # a1s) (a2 # a2s) (b1 # b1s) (b2 # b2s) =
     (case u_check_flip a1 a2 b1 b2 of
        Inl e \<Rightarrow> Inl e
      | Inr f \<Rightarrow>
          (case check_flip a1s a2s b1s b2s of
             Inl e \<Rightarrow> Inl e
           | Inr fs \<Rightarrow> Inr (f # fs)))"
| "check_flip _ _ _ _ = Inr []"

text \<open>
  The words of the specification, for comparison with \<open>u_check_flip\<close>: the
  complement mapping A<->T, G<->C, and the seven steps of the allele harmonizer.
\<close>

definition is_base :: "string \<Rightarrow> bool" where
  "is_base s \<longleftrightarrow> s = ''A'' \<or> s = ''C'' \<or> s = ''G'' \<or> s = ''T''"

definition base_or_missing :: "allele \<Rightarrow> bool" where
  "base_or_missing a \<longleftrightarrow> (case a of None \<Rightarrow> True | Some s \<Rightarrow> is_base s)"

definition complement :: "string \<Rightarrow> string" where
  "complement s =
     (if s = ''A'' then ''T'' else if s = ''T'' then ''A''
      else if s = ''G'' then ''C'' else if s = ''C'' then ''G'' else s)"

definition spec_check_flip :: "allele \<Rightarrow> allele \<Rightarrow> allele \<Rightarrow> allele \<Rightarrow> fl" where
  "spec_check_flip a0 a1 b0 b1 =
     (if a0 = None \<or> a1 = None \<or> b0 = None \<or> b1 = None then NaN
      else if the a0 = complement (the a1) \<or> the b0 = complement (the b1) then NaN
      else if a0 = b0 \<and> a1 = b1 then Fin 1
      else if a0 = b1 \<and> a1 = b0 then Fin (- 1)
      else if the a0 = complement (the b0) \<and> the a1 = complement (the b1) then Fin 1
      else if the a0 = complement (the b1) \<and> the a1 = complement (the b0) then Fin (- 1)
      else NaN)"

subsection \<open>Tables\<close>

text \<open>
  A pandas data frame of this program has the four columns \<^verbatim>\<open>snpid\<close>,
  \<^verbatim>\<open>chr\<close>, \<^verbatim>\<open>effect_allele\<close>, \<^verbatim>\<open>non_effect_allele\<close> and, after
  them, numeric columns (the effect size and its standard error of a GWAS table, one
  weight per IDP of a weight table). \<open>cols\<close> holds the names of the numeric columns
  and \<open>vals\<close> a row's numbers, in the order of \<open>cols\<close>.
\<close>

record row =
  snpid :: string
  chr :: string
  effect_allele :: allele
  non_effect_allele :: allele
  vals :: "fl list"

record table =
  cols :: "string list"
  rows :: "row list"

definition snp_key :: "row \<Rightarrow> string \<times> string" where
  "snp_key r = (snpid r, chr r)"

definition wf_table :: "table \<Rightarrow> bool" where
  "wf_table t \<longleftrightarrow> list_all (\<lambda>r. length (vals r) = length (cols t)) (rows t)"

definition valid_alleles :: "table \<Rightarrow> bool" where
  "valid_alleles t \<longleftrightarrow>
     list_all (\<lambda>r. base_or_missing (effect_allele r) \<and> base_or_missing (non_effect_allele r)) (rows t)"

text \<open>
  \<^verbatim>\<open>pd.merge(left, right, on=['snpid', 'chr'])\<close>, as pandas documents it: the
  inner join keeps the order of the left keys and pairs a left row with every right row
  of the same key, in the order of the right frame; the left join (\<^verbatim>\<open>how='left'\<close>)
  also keeps a left row that has no partner, with missing values in the right columns.
  The result is given as pairs of rows; the caller takes the columns it joined.
\<close>

definition merge_inner :: "row list \<Rightarrow> row list \<Rightarrow> (row \<times> row) list" where
  "merge_inner left right =
     concat (map (\<lambda>l. map (\<lambda>r. (l, r)) (filter (\<lambda>r. snp_key r = snp_key l) right)) left)"

definition merge_left :: "row list \<Rightarrow> row list \<Rightarrow> (row \<times> row option) list" where
  "merge_left left right =
     concat (map (\<lambda>l. case filter (\<lambda>r. snp_key r = snp_key l) right of
                          [] \<Rightarrow> [(l, None)]
                        | ms \<Rightarrow> map (\<lambda>r. (l, Some r)) ms) left)"

text \<open>The right-hand columns of a left join: missing where the row has no partner.\<close>

definition right_allele :: "(row \<Rightarrow> allele) \<Rightarrow> row option \<Rightarrow> allele" where
  "right_allele f d = (case d of None \<Rightarrow> None | Some r \<Rightarrow> f r)"

definition right_vals :: "nat \<Rightarrow> row option \<Rightarrow> fl list" where
  "right_vals n d = (case d of None \<Rightarrow> replicate n NaN | Some r \<Rightarrow> vals r)"

text \<open>
  \<^verbatim>\<open>df_res[df_value_cols] * flip_factor[:, np.newaxis]\<close> on one row: the numbers of
  the designated columns are multiplied by the row's factor.
\<close>

definition scale_vals :: "string list \<Rightarrow> string list \<Rightarrow> fl \<Rightarrow> fl list \<Rightarrow> fl list" where
  "scale_vals cs value_cols f vs =
     map2 (\<lambda>c v. if c \<in> set value_cols then fl_mult v f else v) cs vs"

text \<open>
  \<^verbatim>\<open>rearrage_df_by_target(df, target, df_value_cols)\<close>. Selecting a column that the
  merged frame does not have raises \<^verbatim>\<open>KeyError\<close>; the designated columns are
  numeric columns of \<^verbatim>\<open>df\<close> (both callers pass such).
\<close>

definition rearrage_df_by_target :: "table \<Rightarrow> table \<Rightarrow> string list \<Rightarrow> error + table" where
  "rearrage_df_by_target df target df_value_cols =
     (let df_res = merge_left (rows target) (rows df) in
      case check_flip (map (effect_allele \<circ> fst) df_res)
                      (map (non_effect_allele \<circ> fst) df_res)
                      (map (right_allele effect_allele \<circ> snd) df_res)
                      (map (right_allele non_effect_allele \<circ> snd) df_res) of
        Inl e \<Rightarrow> Inl e
      | Inr flip_factor \<Rightarrow>
          if \<not> set df_value_cols \<subseteq> set (cols df) then Inl KeyError
          else Inr \<lparr>cols = cols df,
                    rows = map2 (\<lambda>(t, d) f.
                             \<lparr>snpid = snpid t, chr = chr t,
                              effect_allele = effect_allele t,
                              non_effect_allele = non_effect_allele t,
                              vals = scale_vals (cols df) df_value_cols f
                                       (right_vals (length (cols df)) d)\<rparr>)
                           df_res flip_factor\<rparr>)"

text \<open>
  \<^verbatim>\<open>series * array\<close>: numpy broadcasting. Arrays of one length are multiplied
  entry by entry, an array of length one is broadcast, and any other pair of lengths
  raises \<^verbatim>\<open>ValueError\<close>.
\<close>

definition mul_series :: "fl list \<Rightarrow> fl list \<Rightarrow> error + fl list" where
  "mul_series s a =
     (if length a = length s then Inr (map2 fl_mult s a)
      else if length a = 1 then Inr (map (\<lambda>x. fl_mult x (hd a)) s)
      else Inl ValueError)"

fun col_index :: "string \<Rightarrow> string list \<Rightarrow> nat option" where
  "col_index c [] = None"
| "col_index c (x # xs) =
     (if x = c then Some 0 else (case col_index c xs of None \<Rightarrow> None | Some k \<Rightarrow> Some (Suc k)))"

text \<open>
  \<^verbatim>\<open>harmonize_gwas_and_weight(gwas, weight)\<close>. \<^verbatim>\<open>df_gwas.effect_size\<close> raises
  \<^verbatim>\<open>AttributeError\<close> when the GWAS table has no such column.
\<close>

definition harmonize_gwas_and_weight :: "table \<Rightarrow> table \<Rightarrow> error + (table \<times> table)" where
  "harmonize_gwas_and_weight gwas weight =
     (let df_common = merge_inner (rows gwas) (rows weight) in
      case check_flip (map (effect_allele \<circ> fst) df_common)
                      (map (non_effect_allele \<circ> fst) df_common)
                      (map (effect_allele \<circ> snd) df_common)
                      (map (non_effect_allele \<circ> snd) df_common) of
        Inl e \<Rightarrow> Inl e
      | Inr flip_factor0 \<Rightarrow>
         (let to_keep_ind = map (\<lambda>f. \<not> isnan f) flip_factor0;
              df_common1 = bool_index to_keep_ind df_common;
              flip_factor = bool_index to_keep_ind flip_factor0;
              df_common2 = map (\<lambda>(g, w).
                             \<lparr>snpid = snpid g, chr = chr g,
                              effect_allele = effect_allele w,
                              non_effect_allele = non_effect_allele w,
                              vals = []\<rparr>) df_common1;
              df_gwas = map (\<lambda>(c, g). c\<lparr>vals := vals g\<rparr>) (merge_inner df_common2 (rows gwas))
          in (case col_index ''effect_size'' (cols gwas) of
               None \<Rightarrow> Inl AttributeError
             | Some k \<Rightarrow>
                 (case mul_series (map (\<lambda>r. vals r ! k) df_gwas) flip_factor of
                    Inl e \<Rightarrow> Inl e
                  | Inr es \<Rightarrow>
                      let df_gwas1 = map2 (\<lambda>r e. r\<lparr>vals := (vals r)[k := e]\<rparr>) df_gwas es;
                          df_weight = map (\<lambda>(c, w). c\<lparr>vals := vals w\<rparr>)
                                        (merge_inner df_common2 (rows weight))
                      in Inr (\<lparr>cols = cols gwas, rows = df_gwas1\<rparr>,
                              \<lparr>cols = cols weight, rows = df_weight\<rparr>)))))"

text \<open>
  Names used in the statements about the two harmonizations: the sign that
  \<^verbatim>\<open>_check_flip\<close> gives a pair of rows (the first row is the query, the second the
  reference), the four identifying columns of a row, the row of \<^verbatim>\<open>df_common\<close> made of a
  joined pair, and the joined pairs that \<^verbatim>\<open>to_keep_ind\<close> keeps.
\<close>

definition flip_rows :: "row \<Rightarrow> row \<Rightarrow> error + fl" where
  "flip_rows a b =
     u_check_flip (effect_allele a) (non_effect_allele a) (effect_allele b) (non_effect_allele b)"

definition row_id :: "row \<Rightarrow> string \<times> string \<times> allele \<times> allele" where
  "row_id r = (snpid r, chr r, effect_allele r, non_effect_allele r)"

definition common_row :: "row \<times> row \<Rightarrow> row" where
  "common_row p =
     \<lparr>snpid = snpid (fst p), chr = chr (fst p),
      effect_allele = effect_allele (snd p), non_effect_allele = non_effect_allele (snd p),
      vals = []\<rparr>"

definition kept_pairs :: "table \<Rightarrow> table \<Rightarrow> (row \<times> row) list" where
  "kept_pairs gwas weight =
     filter (\<lambda>p. \<not> isnan (projr (flip_rows (fst p) (snd p))))
       (merge_inner (rows gwas) (rows weight))"

text \<open>
  Small tables for the concrete instances below. In \<open>ex_gwas\<close> the first SNP has its
  alleles swapped with respect to \<open>ex_weight\<close>, the second is palindromic (A/T) and the
  third has no partner.
\<close>

definition ex_gwas :: table where
  "ex_gwas = \<lparr>cols = [''effect_size'', ''effect_size_se''],
     rows = [\<lparr>snpid = ''rs1'', chr = ''1'', effect_allele = Some ''A'',
               non_effect_allele = Some ''G'', vals = [Fin (1 / 2), Fin (1 / 10)]\<rparr>,
             \<lparr>snpid = ''rs2'', chr = ''1'', effect_allele = Some ''A'',
               non_effect_allele = Some ''T'', vals = [Fin (1 / 4), Fin (1 / 10)]\<rparr>,
             \<lparr>snpid = ''rs3'', chr = ''1'', effect_allele = Some ''C'',
               non_effect_allele = Some ''T'', vals = [Fin 1, Fin (1 / 10)]\<rparr>]\<rparr>"

definition ex_weight :: table where
  "ex_weight = \<lparr>cols = [''idp1''],
     rows = [\<lparr>snpid = ''rs1'', chr = ''1'', effect_allele = Some ''G'',
               non_effect_allele = Some ''A'', vals = [Fin 2]\<rparr>,
             \<lparr>snpid = ''rs2'', chr = ''1'', effect_allele = Some ''A'',
               non_effect_allele = Some ''T'', vals = [Fin 3]\<rparr>]\<rparr>"

definition ex_gwas_out :: table where
  "ex_gwas_out = \<lparr>cols = [''effect_size'', ''effect_size_se''],
     rows = [\<lparr>snpid = ''rs1'', chr = ''1'', effect_allele = Some ''G'',
               non_effect_allele = Some ''A'', vals = [Fin (- (1 / 2)), Fin (1 / 10)]\<rparr>]\<rparr>"

definition ex_weight_out :: table where
  "ex_weight_out = \<lparr>cols = [''idp1''],
     rows = [\<lparr>snpid = ''rs1'', chr = ''1'', effect_allele = Some ''G'',
               non_effect_allele = Some ''A'', vals = [Fin 2]\<rparr>]\<rparr>"

text \<open>
  Names used in the statements about \<^verbatim>\<open>rearrage_df_by_target\<close>: the row of
  \<^verbatim>\<open>df\<close> that has the key of a target row (when \<^verbatim>\<open>df\<close> has unique keys there is at
  most one), the sign of a target row against it (the target row is the query, the
  row of \<^verbatim>\<open>df\<close> the reference, with missing alleles when there is none), and the
  output row.
\<close>

definition partner :: "row list \<Rightarrow> row \<Rightarrow> row option" where
  "partner R l = find (\<lambda>r. snp_key r = snp_key l) R"

definition flip_target :: "row \<Rightarrow> row option \<Rightarrow> error + fl" where
  "flip_target t d =
     u_check_flip (effect_allele t) (non_effect_allele t)
       (right_allele effect_allele d) (right_allele non_effect_allele d)"

definition rearranged_row :: "table \<Rightarrow> string list \<Rightarrow> row \<Rightarrow> row" where
  "rearranged_row df value_cols t =
     \<lparr>snpid = snpid t, chr = chr t,
      effect_allele = effect_allele t, non_effect_allele = non_effect_allele t,
      vals = scale_vals (cols df) value_cols (projr (flip_target t (partner (rows df) t)))
               (right_vals (length (cols df)) (partner (rows df) t))\<rparr>"

definition ex_target :: table where
  "ex_target = \<lparr>cols = [],
     rows = [\<lparr>snpid = ''rs9'', chr = ''1'', effect_allele = Some ''A'',
               non_effect_allele = Some ''C'', vals = []\<rparr>,
             \<lparr>snpid = ''rs2'', chr = ''1'', effect_allele = Some ''A'',
               non_effect_allele = Some ''T'', vals = []\<rparr>,
             \<lparr>snpid = ''rs1'', chr = ''1'', effect_allele = Some ''A'',
               non_effect_allele = Some ''G'', vals = []\<rparr>]\<rparr>"

definition ex_weight_rearranged :: table where
  "ex_weight_rearranged = \<lparr>cols = [''idp1''],
     rows = [\<lparr>snpid = ''rs9'', chr = ''1'', effect_allele = Some ''A'',
               non_effect_allele = Some ''C'', vals = [NaN]\<rparr>,
             \<lparr>snpid = ''rs2'', chr = ''1'', effect_allele = Some ''A'',
               non_effect_allele = Some ''T'', vals = [NaN]\<rparr>,
             \<lparr>snpid = ''rs1'', chr = ''1'', effect_allele = Some ''A'',
               non_effect_allele = Some ''G'', vals = [Fin (- 2)]\<rparr>]\<rparr>"

subsection \<open>\<^verbatim>\<open>impute_b_from_z\<close>\<close>


subsection \<open>\<^verbatim>\<open>load_idp\<close>\<close>





subsection \<open>\<^verbatim>\<open>genomic_control\<close>\<close>


text \<open>
  \<^verbatim>\<open>np.median\<close>: NaN when the array is empty or holds a NaN; else the middle entry of
  the sorted array, or the mean of the two middle entries.
\<close>

fun fl_insort :: "fl \<Rightarrow> fl list \<Rightarrow> fl list" where
  "fl_insort x [] = [x]"
| "fl_insort x (y # ys) = (if fl_le x y then x # y # ys else y # fl_insort x ys)"

definition fl_sort :: "fl list \<Rightarrow> fl list" where
  "fl_sort xs = foldr fl_insort xs []"






subsection \<open>The main program: accumulation over the chromosomes\<close>

text \<open>
  \<^verbatim>\<open>str(i)\<close> for a chromosome number.
\<close>

fun str_nat :: "nat \<Rightarrow> string" where
  "str_nat n =
     (if n < 10 then [char_of (48 + n)]
      else str_nat (n div 10) @ [char_of (48 + n mod 10)])"

declare str_nat.simps [simp del]

text \<open>
  Matrices are lists of rows. \<open>col m j\<close> is \<^verbatim>\<open>m[:, j]\<close>; \<open>matT_mat p q A B\<close> is
  \<^verbatim>\<open>A.T @ B\<close> for \<open>A\<close> with \<open>p\<close> columns and \<open>B\<close> with \<open>q\<close> columns, and
  \<open>matT_vec p A v\<close> is \<^verbatim>\<open>A.T @ v\<close>.
\<close>

type_synonym vec = "fl list"

type_synonym mat = "fl list list"

definition col :: "mat \<Rightarrow> nat \<Rightarrow> vec" where
  "col m j = map (\<lambda>r. r ! j) m"

definition dot :: "vec \<Rightarrow> vec \<Rightarrow> fl" where
  "dot u v = fl_sum (map2 fl_mult u v)"

definition matT_mat :: "nat \<Rightarrow> nat \<Rightarrow> mat \<Rightarrow> mat \<Rightarrow> mat" where
  "matT_mat p q A B = map (\<lambda>i. map (\<lambda>j. dot (col A i) (col B j)) [0..<q]) [0..<p]"

definition matT_vec :: "nat \<Rightarrow> mat \<Rightarrow> vec \<Rightarrow> vec" where
  "matT_vec p A v = map (\<lambda>i. dot (col A i) v) [0..<p]"

definition diagonal :: "mat \<Rightarrow> vec" where
  "diagonal m = map (\<lambda>i. m ! i ! i) [0..<length m]"

text \<open>\<^verbatim>\<open>df.name\<close>: a numeric column, or \<^verbatim>\<open>AttributeError\<close> when there is none.\<close>

definition table_column :: "table \<Rightarrow> string \<Rightarrow> error + vec" where
  "table_column t c =
     (case col_index c (cols t) of
        None \<Rightarrow> Inl AttributeError
      | Some k \<Rightarrow> Inr (map (\<lambda>r. vals r ! k) (rows t)))"

text \<open>
  What one chromosome adds to the accumulators (lines 423 to 439), from the two tables
  rearranged onto the covariance's SNP list. The covariance object is not part of the
  sources; its method \<^verbatim>\<open>eval_matmul_on_left\<close> is a parameter, a function from the
  weight matrix to the pair \<^verbatim>\<open>(cov_x_weight, diag_cov)\<close>.
\<close>

record contribution =
  D_chr :: mat
  numer_b_chr :: vec
  numer_z_chr :: vec
  nsnp_chr :: "int list"

definition chromosome_terms :: "(mat \<Rightarrow> mat \<times> vec) \<Rightarrow> table \<Rightarrow> table \<Rightarrow> error + contribution" where
  "chromosome_terms eval_matmul_on_left df_gwas_sub df_weight_sub =
     (let nidp = length (cols df_weight_sub);
          weight = map (\<lambda>r. map (nan_to 0) (vals r)) (rows df_weight_sub);
          nsnp = map (\<lambda>i. int (length (filter (\<lambda>x. x \<noteq> Fin 0) (col weight i)))) [0..<nidp]
      in case table_column df_gwas_sub ''effect_size'' of
           Inl e \<Rightarrow> Inl e
         | Inr es \<Rightarrow>
            (case table_column df_gwas_sub ''effect_size_se'' of
               Inl e \<Rightarrow> Inl e
             | Inr ses \<Rightarrow>
                (let b_gwas = map (nan_to 0) es;
                     se_gwas = map (nan_to 1) ses;
                     z_gwas = map2 fl_div b_gwas se_gwas;
                     cov_x_weight = fst (eval_matmul_on_left weight);
                     diag_cov = snd (eval_matmul_on_left weight);
                     var_R_chr = diag_cov
                 in Inr \<lparr>D_chr = matT_mat nidp nidp weight cov_x_weight,
                          numer_b_chr = matT_vec nidp weight (map2 fl_mult var_R_chr b_gwas),
                          numer_z_chr = matT_vec nidp weight
                                          (map2 fl_mult (map fl_sqrt var_R_chr) z_gwas),
                          nsnp_chr = nsnp\<rparr>)))"

text \<open>
  The body of the loop up to the accumulation (lines 395 to 439): \<open>None\<close> is the
  \<^verbatim>\<open>continue\<close> of a chromosome without GWAS rows. \<^verbatim>\<open>load_cov_meta\<close> reads a file
  and \<^verbatim>\<open>CovMatrix\<close> is not part of the sources: both are parameters, functions of the
  chromosome number.
\<close>

definition chromosome_contribution ::
  "(nat \<Rightarrow> table) \<Rightarrow> (nat \<Rightarrow> mat \<Rightarrow> mat \<times> vec) \<Rightarrow> table \<Rightarrow> table \<Rightarrow> nat
     \<Rightarrow> error + contribution option" where
  "chromosome_contribution load_cov_meta cov_matrix df_gwas df_weight i =
     (let df_gwas_sub = df_gwas\<lparr>rows := filter (\<lambda>r. chr r = str_nat i) (rows df_gwas)\<rparr>;
          df_weight_sub = df_weight\<lparr>rows := filter (\<lambda>r. chr r = str_nat i) (rows df_weight)\<rparr>
      in if rows df_gwas_sub = [] then Inr None
         else (let df_cov_meta = load_cov_meta i
               in case rearrage_df_by_target df_gwas_sub df_cov_meta [''effect_size''] of
                    Inl e \<Rightarrow> Inl e
                  | Inr g \<Rightarrow>
                     (case rearrage_df_by_target df_weight_sub df_cov_meta (cols df_weight) of
                        Inl e \<Rightarrow> Inl e
                      | Inr w \<Rightarrow>
                         (case chromosome_terms (cov_matrix i) g w of
                            Inl e \<Rightarrow> Inl e
                          | Inr c \<Rightarrow> Inr (Some c)))))"

text \<open>
  The accumulators and the two vectors that are filtered with them. \<open>init_state\<close> is
  lines 348 to 350 and 389 to 392, \<open>accumulate\<close> the four \<^verbatim>\<open>+=\<close> of lines 425 and 440
  to 442, \<open>loop_step\<close> one pass of the loop (an exception ends the run) and
  \<open>chromosome_loop\<close> the loop over \<^verbatim>\<open>range(1, 23)\<close>.
\<close>

record state =
  D :: mat
  numer_b :: vec
  numer_z :: vec
  nsnp_used :: "int list"
  idp_names :: "string list"
  nsnp_total :: "int list"

definition nsnp_total_of :: "table \<Rightarrow> int list" where
  "nsnp_total_of df_weight =
     map (\<lambda>i. int (length (filter (\<lambda>x. x \<noteq> Fin 0) (col (map vals (rows df_weight)) i))))
       [0..<length (cols df_weight)]"

definition init_state :: "string list \<Rightarrow> int list \<Rightarrow> state" where
  "init_state names0 total0 =
     (let nidp = length names0
      in \<lparr>D = replicate nidp (replicate nidp (Fin 0)),
          numer_b = replicate nidp (Fin 0),
          numer_z = replicate nidp (Fin 0),
          nsnp_used = replicate nidp 0,
          idp_names = names0,
          nsnp_total = total0\<rparr>)"

definition accumulate :: "state \<Rightarrow> contribution \<Rightarrow> state" where
  "accumulate st c =
     st\<lparr>D := map2 (map2 fl_add) (D st) (D_chr c),
        numer_b := map2 fl_add (numer_b st) (numer_b_chr c),
        numer_z := map2 fl_add (numer_z st) (numer_z_chr c),
        nsnp_used := map2 (+) (nsnp_used st) (nsnp_chr c)\<rparr>"

definition loop_step :: "(nat \<Rightarrow> error + contribution option) \<Rightarrow> nat \<Rightarrow> error + state \<Rightarrow> error + state" where
  "loop_step contrib i r =
     (case r of
        Inl e \<Rightarrow> Inl e
      | Inr st \<Rightarrow>
         (case contrib i of
            Inl e \<Rightarrow> Inl e
          | Inr None \<Rightarrow> Inr st
          | Inr (Some c) \<Rightarrow> Inr (accumulate st c)))"

definition run_chromosomes ::
  "(nat \<Rightarrow> error + contribution option) \<Rightarrow> nat list \<Rightarrow> state \<Rightarrow> error + state" where
  "run_chromosomes contrib cs st = fold (loop_step contrib) cs (Inr st)"

definition chromosome_loop :: "(nat \<Rightarrow> error + contribution option) \<Rightarrow> state \<Rightarrow> error + state" where
  "chromosome_loop contrib st = run_chromosomes contrib [1..<23] st"


subsection \<open>The main program: the marginal test\<close>

text \<open>The check for traits with \<open>D = 0\<close> (lines 444 to 453).\<close>

definition good_pheno :: "state \<Rightarrow> bool list" where
  "good_pheno st = map (\<lambda>d. d \<noteq> Fin 0) (diagonal (D st))"

definition check_D_zero :: "state \<Rightarrow> state" where
  "check_D_zero st =
     (let n_bad_pheno = length (filter (\<lambda>d. d = Fin 0) (diagonal (D st)))
      in if 0 < n_bad_pheno then
           \<lparr>D = bool_index (good_pheno st) (map (bool_index (good_pheno st)) (D st)),
            numer_b = bool_index (good_pheno st) (numer_b st),
            numer_z = bool_index (good_pheno st) (numer_z st),
            nsnp_used = bool_index (good_pheno st) (nsnp_used st),
            idp_names = bool_index (good_pheno st) (idp_names st),
            nsnp_total = bool_index (good_pheno st) (nsnp_total st)\<rparr>
         else st)"

text \<open>Lines 456 to 458: \<open>S_D\<close>, the divisors of \<open>beta_brainxcan\<close>, and the two ratios.\<close>

definition S_D :: "state \<Rightarrow> vec" where
  "S_D st = map fl_sqrt (diagonal (D st))"

definition beta_brainxcan :: "state \<Rightarrow> vec" where
  "beta_brainxcan st = map2 fl_div (numer_b st) (map fl_power2 (S_D st))"

definition z_brainxcan :: "state \<Rightarrow> vec" where
  "z_brainxcan st = map2 fl_div (numer_z st) (S_D st)"

text \<open>
  The empirical null. Line 355 reads \<^verbatim>\<open>args.args.empirical_null_nrepeat\<close>; the parsed
  arguments have no attribute \<^verbatim>\<open>args\<close>, so the read raises whenever the flag is set.
  Lines 460 and 461 split the z-scores at index \<^verbatim>\<open>nrepeat_null\<close>; \<^verbatim>\<open>np.var\<close> is the
  mean of the squared deviations from the mean.
\<close>

definition nrepeat_null_of :: "bool \<Rightarrow> error + nat" where
  "nrepeat_null_of empirical_null = (if empirical_null then Inl AttributeError else Inr 0)"

definition np_mean :: "vec \<Rightarrow> fl" where
  "np_mean xs = fl_div (fl_sum xs) (Fin (real (length xs)))"

definition np_var :: "vec \<Rightarrow> fl" where
  "np_var xs = np_mean (map (\<lambda>x. fl_power2 (fl_sub x (np_mean xs))) xs)"

definition empirical_null_split :: "nat \<Rightarrow> vec \<Rightarrow> vec \<times> vec \<times> vec" where
  "empirical_null_split nrepeat_null z =
     (let z_null = drop nrepeat_null z;
          z_brainxcan1 = take nrepeat_null z;
          varz_null = np_var z_null;
          z_adj_emp = map (\<lambda>x. fl_div x (fl_sqrt varz_null)) z_brainxcan1
      in (z_null, z_brainxcan1, z_adj_emp))"





text \<open>
  Names used in the statement about the check for \<open>D = 0\<close>: a state whose accumulators
  are \<open>n\<close> by \<open>n\<close> and of length \<open>n\<close>; a finite number; a weight matrix whose column
  \<open>i\<close> is zero; and a covariance object whose product has finite entries in column \<open>i\<close>
  (on the rows that meet a row of the weight matrix) whenever column \<open>i\<close> of the weight
  matrix is zero.
\<close>

definition shaped :: "nat \<Rightarrow> state \<Rightarrow> bool" where
  "shaped n st \<longleftrightarrow>
     length (D st) = n \<and> list_all (\<lambda>r. length r = n) (D st)
     \<and> length (numer_b st) = n \<and> length (numer_z st) = n \<and> length (nsnp_used st) = n
     \<and> length (idp_names st) = n \<and> length (nsnp_total st) = n"

fun is_fin :: "fl \<Rightarrow> bool" where
  "is_fin (Fin x) = True"
| "is_fin _ = False"

definition zero_column :: "mat \<Rightarrow> nat \<Rightarrow> bool" where
  "zero_column W i \<longleftrightarrow> list_all (\<lambda>r. i < length r \<and> r ! i = Fin 0) W"

definition finite_on_zero_column :: "(nat \<Rightarrow> mat \<Rightarrow> mat \<times> vec) \<Rightarrow> nat \<Rightarrow> bool" where
  "finite_on_zero_column cov_matrix i \<longleftrightarrow>
     (\<forall>c W. zero_column W i \<longrightarrow>
        (\<forall>s < min (length W) (length (fst (cov_matrix c W))).
           i < length (fst (cov_matrix c W) ! s) \<and> is_fin (fst (cov_matrix c W) ! s ! i)))"

text \<open>
  Modelled from the spec: \<^verbatim>\<open>CovMatrix.eval_matmul_on_left\<close>, which is not part of the
  sources. The specification gives its contract: for a weight matrix SNP x K it returns
  the product of the covariance with the weight matrix, SNP x K, and the diagonal of the
  covariance. The covariance is a matrix of finite numbers.
\<close>

definition eval_matmul_on_left :: "real list list \<Rightarrow> mat \<Rightarrow> mat \<times> vec" where
  "eval_matmul_on_left cov weight =
     (map (\<lambda>crow. map (\<lambda>j. dot (map Fin crow) (col weight j))
                     [0..<(case weight of [] \<Rightarrow> 0 | r # _ \<Rightarrow> length r)]) cov,
      map (\<lambda>s. Fin (cov ! s ! s)) [0..<length cov])"

text \<open>The indices that a boolean mask keeps, and a contribution of \<open>n\<close> IDPs.\<close>

definition kept :: "bool list \<Rightarrow> nat list" where
  "kept m = filter (\<lambda>j. m ! j) [0..<length m]"

definition cshaped :: "nat \<Rightarrow> contribution \<Rightarrow> bool" where
  "cshaped n c \<longleftrightarrow>
     length (D_chr c) = n \<and> list_all (\<lambda>r. length r = n) (D_chr c)
     \<and> length (numer_b_chr c) = n \<and> length (numer_z_chr c) = n \<and> length (nsnp_chr c) = n"

text \<open>
  The main program from the loaded tables to the accumulators (lines 348 to 442), for a
  run without the empirical null: the IDP names and \<^verbatim>\<open>nsnp_total\<close> are taken from the
  loaded weight table, the tables are harmonized, and the loop runs on the harmonized
  tables.
\<close>

definition main_accumulators ::
  "(nat \<Rightarrow> table) \<Rightarrow> (nat \<Rightarrow> mat \<Rightarrow> mat \<times> vec) \<Rightarrow> table \<Rightarrow> table \<Rightarrow> error + state" where
  "main_accumulators load_cov_meta cov_matrix df_gwas0 df_weight0 =
     (let idp_names0 = cols df_weight0;
          nsnp_total0 = nsnp_total_of df_weight0
      in case harmonize_gwas_and_weight df_gwas0 df_weight0 of
           Inl e \<Rightarrow> Inl e
         | Inr gw \<Rightarrow>
             chromosome_loop
               (chromosome_contribution load_cov_meta cov_matrix (fst gw) (snd gw))
               (init_state idp_names0 nsnp_total0))"

text \<open>
  An example run: the GWAS table \<open>ex_gwas\<close>, a weight table with two IDPs of which the
  second has weight zero on every SNP, a covariance of two SNPs on chromosome 1 (the
  identity matrix), of which the second SNP is in neither table.
\<close>

definition ex_weight2 :: table where
  "ex_weight2 = \<lparr>cols = [''idp1'', ''idp2''],
     rows = [\<lparr>snpid = ''rs1'', chr = ''1'', effect_allele = Some ''G'',
               non_effect_allele = Some ''A'', vals = [Fin 2, Fin 0]\<rparr>,
             \<lparr>snpid = ''rs2'', chr = ''1'', effect_allele = Some ''A'',
               non_effect_allele = Some ''T'', vals = [Fin 3, Fin 0]\<rparr>]\<rparr>"

definition ex_cov_meta :: "nat \<Rightarrow> table" where
  "ex_cov_meta i = \<lparr>cols = [],
     rows = [\<lparr>snpid = ''rs1'', chr = ''1'', effect_allele = Some ''G'',
               non_effect_allele = Some ''A'', vals = []\<rparr>,
             \<lparr>snpid = ''rs7'', chr = ''1'', effect_allele = Some ''C'',
               non_effect_allele = Some ''A'', vals = []\<rparr>]\<rparr>"

definition ex_cov_matrix :: "nat \<Rightarrow> mat \<Rightarrow> mat \<times> vec" where
  "ex_cov_matrix i = eval_matmul_on_left [[1, 0], [0, 1]]"

definition ex_state :: state where
  "ex_state = \<lparr>D = [[Fin 4, Fin 0], [Fin 0, Fin 0]], numer_b = [Fin (- 1), Fin 0],
                numer_z = [Fin (- 10), Fin 0], nsnp_used = [1, 0],
                idp_names = [''idp1'', ''idp2''], nsnp_total = [2, 0]\<rparr>"

definition ex_weight2_out :: table where
  "ex_weight2_out = \<lparr>cols = [''idp1'', ''idp2''],
     rows = [\<lparr>snpid = ''rs1'', chr = ''1'', effect_allele = Some ''G'',
               non_effect_allele = Some ''A'', vals = [Fin 2, Fin 0]\<rparr>]\<rparr>"

definition ex_contribution1 :: contribution where
  "ex_contribution1 = \<lparr>D_chr = [[Fin 4, Fin 0], [Fin 0, Fin 0]], numer_b_chr = [Fin (- 1), Fin 0],
                        numer_z_chr = [Fin (- 10), Fin 0], nsnp_chr = [1, 0]\<rparr>"

section \<open>Lemmas and theorems\<close>

subsection \<open>\<^verbatim>\<open>_check_flip\<close>\<close>

lemma BASE_PAIR_base: "is_base s \<Longrightarrow> BASE_PAIR s = Some (complement s)"
  by (auto simp: is_base_def BASE_PAIR_def complement_def)

lemma if_chain_Inr:
  "(if P then Inr NaN else if Q then Inr NaN else if R then Inr a else if S then Inr b
    else if T then Inr a else if U then Inr b else Inr NaN) =
   (Inr (if P \<or> Q then NaN else if R then a else if S then b
        else if T then a else if U then b else NaN) :: error + fl)"
  by simp

lemma u_check_flip_Some:
  assumes "BASE_PAIR x1 = Some cx1" "BASE_PAIR y1 = Some cy1" "BASE_PAIR y0 = Some cy0"
  shows "u_check_flip (Some x0) (Some x1) (Some y0) (Some y1) =
     Inr (if x0 = cx1 \<or> y0 = cy1 then NaN
          else if x0 = y0 \<and> x1 = y1 then Fin 1
          else if x0 = y1 \<and> x1 = y0 then Fin (- 1)
          else if x0 = cy0 \<and> x1 = cy1 then Fin 1
          else if x0 = cy1 \<and> x1 = cy0 then Fin (- 1)
          else NaN)"
  by (simp only: u_check_flip.simps(1) assms option.case if_chain_Inr)

lemma u_check_flip_missing:
  "a0 = None \<or> a1 = None \<or> b0 = None \<or> b1 = None \<Longrightarrow> u_check_flip a0 a1 b0 b1 = Inr NaN"
  by (cases a0; cases a1; cases b0; cases b1) auto

lemma spec_check_flip_range: "spec_check_flip a0 a1 b0 b1 \<in> {Fin 1, Fin (- 1), NaN}"
  unfolding spec_check_flip_def by (simp only: insert_iff simp_thms split: if_split)

lemma u_check_flip_refines:
  assumes "base_or_missing a0" "base_or_missing a1" "base_or_missing b0" "base_or_missing b1"
  shows "u_check_flip a0 a1 b0 b1 = Inr (spec_check_flip a0 a1 b0 b1)"
proof (cases "a0 = None \<or> a1 = None \<or> b0 = None \<or> b1 = None")
  case True
  with u_check_flip_missing [OF True] show ?thesis by (simp add: spec_check_flip_def)
next
  case False
  then obtain x0 x1 y0 y1 where eq: "a0 = Some x0" "a1 = Some x1" "b0 = Some y0" "b1 = Some y1"
    by auto
  with assms have b: "is_base x1" "is_base y0" "is_base y1"
    by (simp_all add: base_or_missing_def)
  show ?thesis
    unfolding eq spec_check_flip_def
    by (simp only: u_check_flip_Some [OF BASE_PAIR_base [OF b(1)] BASE_PAIR_base [OF b(3)]
            BASE_PAIR_base [OF b(2)]]
          option.sel option.inject option.distinct simp_thms if_False)
qed

lemma u_check_flip_valid:
  assumes "base_or_missing a0" "base_or_missing a1" "base_or_missing b0" "base_or_missing b1"
  shows "\<not> isl (u_check_flip a0 a1 b0 b1)"
  by (simp add: u_check_flip_refines [OF assms])

lemma u_check_flip_error: "u_check_flip a0 a1 b0 b1 = Inl e \<Longrightarrow> e = KeyError"
  by (cases a0; cases a1; cases b0; cases b1) (auto split: option.splits if_splits)

text \<open>
  C1. For alleles that are bases (A, C, G, T) or missing, \<^verbatim>\<open>_check_flip\<close> raises
  nothing and returns what the seven steps of the specification give, taken in their
  order: NaN when a value is missing, else NaN when either pair is a base and its
  complement, else +1 for the exact match, -1 for the swapped match, +1 for the
  complement match, -1 for the complement-swap match, else NaN. The result is one of
  +1, -1 and NaN.
\<close>

theorem check_flip_spec:
  assumes "base_or_missing a0" "base_or_missing a1" "base_or_missing b0" "base_or_missing b1"
  shows "u_check_flip a0 a1 b0 b1 = Inr (spec_check_flip a0 a1 b0 b1)
       \<and> spec_check_flip a0 a1 b0 b1 \<in> {Fin 1, Fin (- 1), NaN}"
  using u_check_flip_refines [OF assms] spec_check_flip_range by simp

theorem check_flip_spec_witness:
  "base_or_missing (Some ''A'') \<and> base_or_missing (Some ''G'') \<and> base_or_missing (Some ''C'')
   \<and> base_or_missing (Some ''T'')
   \<and> u_check_flip (Some ''A'') (Some ''G'') (Some ''C'') (Some ''T'') = Inr (Fin (- 1))
   \<and> spec_check_flip (Some ''A'') (Some ''G'') (Some ''C'') (Some ''T'') = Fin (- 1)"
proof -
  have h: "base_or_missing (Some ''A'')" "base_or_missing (Some ''G'')"
    "base_or_missing (Some ''C'')" "base_or_missing (Some ''T'')"
    by (simp_all add: base_or_missing_def is_base_def)
  have v: "spec_check_flip (Some ''A'') (Some ''G'') (Some ''C'') (Some ''T'') = Fin (- 1)"
    by (simp add: spec_check_flip_def complement_def)
  from check_flip_spec [OF h] v h show ?thesis by simp
qed

subsection \<open>\<^verbatim>\<open>check_flip\<close>, boolean indexing and the joins\<close>

lemma check_flip_map:
  "check_flip (map a P) (map b P) (map c P) (map d P) =
     (if list_all (\<lambda>p. \<not> isl (u_check_flip (a p) (b p) (c p) (d p))) P
      then Inr (map (\<lambda>p. projr (u_check_flip (a p) (b p) (c p) (d p))) P)
      else Inl KeyError)"
proof (induction P)
  case Nil
  then show ?case by simp
next
  case (Cons p P)
  show ?case
  proof (cases "u_check_flip (a p) (b p) (c p) (d p)")
    case (Inl e)
    then have "e = KeyError" by (rule u_check_flip_error)
    with Inl show ?thesis by simp
  next
    case (Inr f)
    with Cons show ?thesis by simp
  qed
qed

lemma bool_index_map: "bool_index (map P xs) (map f xs) = map f (filter P xs)"
  by (induction xs) (simp_all add: bool_index_def)

lemma bool_index_map_id: "bool_index (map P xs) xs = filter P xs"
  using bool_index_map [of P xs id] by simp

lemma filter_key_distinct:
  "distinct (map f xs) \<Longrightarrow> x \<in> set xs \<Longrightarrow> filter (\<lambda>y. f y = f x) xs = [x]"
proof (induction xs)
  case Nil
  then show ?case by simp
next
  case (Cons a xs)
  show ?case
  proof (cases "x = a")
    case True
    from Cons.prems have "\<forall>y\<in>set xs. f y \<noteq> f a" by (auto simp: image_iff)
    then have "filter (\<lambda>y. f y = f a) xs = []" by (simp add: filter_empty_conv)
    with True show ?thesis by simp
  next
    case False
    with Cons.prems have "x \<in> set xs" "f a \<noteq> f x" by (auto simp: image_iff)
    with Cons show ?thesis by simp
  qed
qed

lemma merge_inner_Cons:
  "merge_inner (l # ls) R =
     map (\<lambda>r. (l, r)) (filter (\<lambda>r. snp_key r = snp_key l) R) @ merge_inner ls R"
  by (simp add: merge_inner_def)

lemma merge_inner_Nil: "merge_inner [] R = []"
  by (simp add: merge_inner_def)

lemma merge_inner_set:
  "(l, r) \<in> set (merge_inner L R) \<longleftrightarrow> l \<in> set L \<and> r \<in> set R \<and> snp_key r = snp_key l"
  by (auto simp: merge_inner_def)

lemma merge_inner_map_unique:
  assumes "distinct (map snp_key R)"
    and "\<forall>p\<in>set ps. h p \<in> set R \<and> snp_key (h p) = snp_key (c p)"
  shows "merge_inner (map c ps) R = map (\<lambda>p. (c p, h p)) ps"
  using assms(2)
proof (induction ps)
  case Nil
  then show ?case by (simp add: merge_inner_Nil)
next
  case (Cons p ps)
  from Cons.prems have hp: "h p \<in> set R" and k: "snp_key (c p) = snp_key (h p)" by simp_all
  have "filter (\<lambda>r. snp_key r = snp_key (c p)) R = [h p]"
    unfolding k using assms(1) hp by (rule filter_key_distinct)
  with Cons show ?case by (simp add: merge_inner_Cons)
qed

lemma col_index_Some: "c \<in> set cs \<Longrightarrow> \<exists>k. col_index c cs = Some k"
  by (induction cs) auto

lemma valid_alleles_row:
  "valid_alleles t \<Longrightarrow> r \<in> set (rows t) \<Longrightarrow>
     base_or_missing (effect_allele r) \<and> base_or_missing (non_effect_allele r)"
  by (simp add: valid_alleles_def list_all_iff)

lemma flip_rows_valid:
  assumes "valid_alleles s" "valid_alleles t" "a \<in> set (rows s)" "b \<in> set (rows t)"
  shows "\<not> isl (flip_rows a b)"
  unfolding flip_rows_def
proof (rule u_check_flip_valid)
  from valid_alleles_row [OF assms(1,3)]
  show "base_or_missing (effect_allele a)" "base_or_missing (non_effect_allele a)" by simp_all
  from valid_alleles_row [OF assms(2,4)]
  show "base_or_missing (effect_allele b)" "base_or_missing (non_effect_allele b)" by simp_all
qed

subsection \<open>\<^verbatim>\<open>harmonize_gwas_and_weight\<close>\<close>

lemma kept_pairs_set:
  "p \<in> set (kept_pairs gwas weight) \<Longrightarrow>
     fst p \<in> set (rows gwas) \<and> snd p \<in> set (rows weight) \<and> snp_key (snd p) = snp_key (fst p)
     \<and> \<not> isnan (projr (flip_rows (fst p) (snd p)))"
  by (cases p) (auto simp: kept_pairs_def merge_inner_set)

lemma mul_series_same: "length a = length s \<Longrightarrow> mul_series s a = Inr (map2 fl_mult s a)"
  by (simp add: mul_series_def)

text \<open>With unique keys on both sides the function has a closed form.\<close>

lemma harmonize_closed:
  assumes dG: "distinct (map snp_key (rows gwas))" and dW: "distinct (map snp_key (rows weight))"
  shows "harmonize_gwas_and_weight gwas weight =
    (if \<not> list_all (\<lambda>p. \<not> isl (flip_rows (fst p) (snd p))) (merge_inner (rows gwas) (rows weight))
     then Inl KeyError
     else case col_index ''effect_size'' (cols gwas) of
       None \<Rightarrow> Inl AttributeError
     | Some k \<Rightarrow>
         Inr (\<lparr>cols = cols gwas,
               rows = map (\<lambda>p. (common_row p)\<lparr>vals := (vals (fst p))
                          [k := fl_mult (vals (fst p) ! k) (projr (flip_rows (fst p) (snd p)))]\<rparr>)
                        (kept_pairs gwas weight)\<rparr>,
              \<lparr>cols = cols weight,
               rows = map (\<lambda>p. (common_row p)\<lparr>vals := vals (snd p)\<rparr>) (kept_pairs gwas weight)\<rparr>))"
proof -
  let ?P = "merge_inner (rows gwas) (rows weight)"
  let ?F = "\<lambda>p. projr (flip_rows (fst p) (snd p))"
  let ?C = "kept_pairs gwas weight"
  have cf: "check_flip (map (effect_allele \<circ> fst) ?P) (map (non_effect_allele \<circ> fst) ?P)
              (map (effect_allele \<circ> snd) ?P) (map (non_effect_allele \<circ> snd) ?P) =
            (if list_all (\<lambda>p. \<not> isl (flip_rows (fst p) (snd p))) ?P then Inr (map ?F ?P)
             else Inl KeyError)"
    by (simp add: check_flip_map flip_rows_def)
  have c1: "bool_index (map (\<lambda>f. \<not> isnan f) (map ?F ?P)) ?P = ?C"
    using bool_index_map_id [of "\<lambda>p. \<not> isnan (?F p)" ?P] by (simp add: kept_pairs_def comp_def)
  have f1: "bool_index (map (\<lambda>f. \<not> isnan f) (map ?F ?P)) (map ?F ?P) = map ?F ?C"
    using bool_index_map [of "\<lambda>p. \<not> isnan (?F p)" ?P ?F] by (simp add: kept_pairs_def comp_def)
  have c2: "map (\<lambda>(g, w). \<lparr>snpid = snpid g, chr = chr g, effect_allele = effect_allele w,
                   non_effect_allele = non_effect_allele w, vals = []\<rparr>) ?C = map common_row ?C"
    by (simp add: common_row_def case_prod_beta)
  have mg: "merge_inner (map common_row ?C) (rows gwas) = map (\<lambda>p. (common_row p, fst p)) ?C"
    by (rule merge_inner_map_unique [OF dG])
      (auto dest: kept_pairs_set simp: common_row_def snp_key_def)
  have mw: "merge_inner (map common_row ?C) (rows weight) = map (\<lambda>p. (common_row p, snd p)) ?C"
    by (rule merge_inner_map_unique [OF dW])
      (auto dest!: kept_pairs_set simp: common_row_def snp_key_def)
  show ?thesis
  proof (cases "list_all (\<lambda>p. \<not> isl (flip_rows (fst p) (snd p))) ?P")
    case False
    then show ?thesis
      unfolding harmonize_gwas_and_weight_def Let_def cf by simp
  next
    case True
    show ?thesis
      unfolding harmonize_gwas_and_weight_def Let_def cf
      apply (simp only: True if_True not_True_eq_False if_False sum.case c1 f1 c2 mg mw)
      apply (simp add: mul_series_same comp_def case_prod_beta zip_map_map map2_map_map
          zip_same_conv_map zip_map1 zip_map2 split: option.splits)
      done
  qed
qed

lemma harmonize_returns:
  assumes dG: "distinct (map snp_key (rows gwas))" and dW: "distinct (map snp_key (rows weight))"
    and vG: "valid_alleles gwas" and vW: "valid_alleles weight"
    and es: "''effect_size'' \<in> set (cols gwas)"
  shows "\<not> isl (harmonize_gwas_and_weight gwas weight)"
proof -
  have la: "list_all (\<lambda>p. \<not> isl (flip_rows (fst p) (snd p))) (merge_inner (rows gwas) (rows weight))"
    unfolding list_all_iff
  proof
    fix p assume "p \<in> set (merge_inner (rows gwas) (rows weight))"
    then have "(fst p, snd p) \<in> set (merge_inner (rows gwas) (rows weight))" by simp
    then have "fst p \<in> set (rows gwas)" "snd p \<in> set (rows weight)"
      unfolding merge_inner_set by simp_all
    then show "\<not> isl (flip_rows (fst p) (snd p))"
      by (rule flip_rows_valid [OF vG vW])
  qed
  from col_index_Some [OF es] obtain k where k: "col_index ''effect_size'' (cols gwas) = Some k" ..
  show ?thesis
    unfolding harmonize_closed [OF dG dW]
    by (simp only: la k not_True_eq_False if_False option.case sum.disc simp_thms)
qed

lemma harmonize_InrD:
  assumes dG: "distinct (map snp_key (rows gwas))" and dW: "distinct (map snp_key (rows weight))"
    and r: "harmonize_gwas_and_weight gwas weight = Inr (g, w)"
  shows "\<exists>k. col_index ''effect_size'' (cols gwas) = Some k
      \<and> list_all (\<lambda>p. \<not> isl (flip_rows (fst p) (snd p))) (merge_inner (rows gwas) (rows weight))
      \<and> g = \<lparr>cols = cols gwas,
               rows = map (\<lambda>p. (common_row p)\<lparr>vals := (vals (fst p))
                          [k := fl_mult (vals (fst p) ! k) (projr (flip_rows (fst p) (snd p)))]\<rparr>)
                        (kept_pairs gwas weight)\<rparr>
      \<and> w = \<lparr>cols = cols weight,
               rows = map (\<lambda>p. (common_row p)\<lparr>vals := vals (snd p)\<rparr>) (kept_pairs gwas weight)\<rparr>"
  using r unfolding harmonize_closed [OF dG dW]
  by (auto split: if_splits option.splits)

lemma u_check_flip_range:
  "u_check_flip a0 a1 b0 b1 = Inr s \<Longrightarrow> s = Fin 1 \<or> s = Fin (- 1) \<or> s = NaN"
  by (cases a0; cases a1; cases b0; cases b1) (auto split: option.splits if_splits)

lemma filter_key_cases:
  assumes "distinct (map f xs)"
  shows "filter (\<lambda>y. f y = k) xs = [] \<or> (\<exists>x. x \<in> set xs \<and> f x = k \<and> filter (\<lambda>y. f y = k) xs = [x])"
proof (cases "\<exists>x\<in>set xs. f x = k")
  case True
  then obtain x where x: "x \<in> set xs" "f x = k" by blast
  from filter_key_distinct [OF assms x(1)] x show ?thesis by auto
next
  case False
  then show ?thesis by (simp add: filter_empty_conv)
qed

lemma map_fst_filter_merge_inner:
  assumes "distinct (map snp_key R)"
  shows "map fst (filter Q (merge_inner L R)) =
         filter (\<lambda>l. \<exists>x\<in>set R. snp_key x = snp_key l \<and> Q (l, x)) L"
proof (induction L)
  case Nil
  then show ?case by (simp add: merge_inner_Nil)
next
  case (Cons l L)
  from filter_key_cases [OF assms, of "snp_key l"]
  show ?case
  proof
    assume e: "filter (\<lambda>y. snp_key y = snp_key l) R = []"
    then have "\<not> (\<exists>x\<in>set R. snp_key x = snp_key l \<and> Q (l, x))"
      by (auto simp: filter_empty_conv)
    with e Cons show ?thesis by (simp add: merge_inner_Cons)
  next
    assume "\<exists>x. x \<in> set R \<and> snp_key x = snp_key l \<and> filter (\<lambda>y. snp_key y = snp_key l) R = [x]"
    then obtain x where x: "x \<in> set R" "snp_key x = snp_key l"
      and f: "filter (\<lambda>y. snp_key y = snp_key l) R = [x]" by blast
    have "\<And>y. y \<in> set R \<Longrightarrow> snp_key y = snp_key l \<Longrightarrow> y = x"
    proof -
      fix y assume "y \<in> set R" "snp_key y = snp_key l"
      then have "y \<in> set (filter (\<lambda>y. snp_key y = snp_key l) R)" by simp
      then show "y = x" unfolding f by simp
    qed
    with x have "(\<exists>y\<in>set R. snp_key y = snp_key l \<and> Q (l, y)) \<longleftrightarrow> Q (l, x)" by blast
    with f Cons show ?thesis by (simp add: merge_inner_Cons)
  qed
qed

text \<open>The example tables: unique keys, and what the function returns on them.\<close>

lemma ex_harmonize:
  "harmonize_gwas_and_weight ex_gwas ex_weight = Inr (ex_gwas_out, ex_weight_out)"
  by (simp add: harmonize_gwas_and_weight_def ex_gwas_def ex_weight_def ex_gwas_out_def
      ex_weight_out_def merge_inner_def snp_key_def BASE_PAIR_def bool_index_def mul_series_def)

lemma ex_distinct:
  "distinct (map snp_key (rows ex_gwas))" "distinct (map snp_key (rows ex_weight))"
  by (simp_all add: ex_gwas_def ex_weight_def snp_key_def)

text \<open>
  C2, as amended. For a GWAS table and a weight table with unique (snpid, chr) keys (and
  alleles that are bases or missing, so that nothing is raised), the function inner-joins
  the tables on (snpid, chr): the returned rows are, in the order of the GWAS table, the
  SNPs that have a partner in the weight table with a determined sign. Both returned
  tables carry the alleles of the weight table. The sign (+1 or -1) multiplies the GWAS
  \<^verbatim>\<open>effect_size\<close> only; the numbers of the returned weight table are those of the
  weight table, unchanged.
\<close>

theorem harmonize_gwas_and_weight_spec:
  assumes dG: "distinct (map snp_key (rows gwas))" and dW: "distinct (map snp_key (rows weight))"
  shows "(valid_alleles gwas \<and> valid_alleles weight \<and> ''effect_size'' \<in> set (cols gwas)
            \<longrightarrow> \<not> isl (harmonize_gwas_and_weight gwas weight))
       \<and> (\<forall>g w. harmonize_gwas_and_weight gwas weight = Inr (g, w) \<longrightarrow>
            cols g = cols gwas \<and> cols w = cols weight
          \<and> map snp_key (rows g) =
              map snp_key (filter (\<lambda>r. \<exists>x\<in>set (rows weight). snp_key x = snp_key r
                                     \<and> \<not> isnan (projr (flip_rows r x))) (rows gwas))
          \<and> length (rows w) = length (rows g)
          \<and> (\<forall>j < length (rows g). \<exists>gr\<in>set (rows gwas). \<exists>wr\<in>set (rows weight). \<exists>s k.
                 snp_key wr = snp_key gr \<and> flip_rows gr wr = Inr s \<and> (s = Fin 1 \<or> s = Fin (- 1))
               \<and> col_index ''effect_size'' (cols gwas) = Some k
               \<and> row_id (rows g ! j) = (snpid gr, chr gr, effect_allele wr, non_effect_allele wr)
               \<and> row_id (rows w ! j) = (snpid gr, chr gr, effect_allele wr, non_effect_allele wr)
               \<and> vals (rows g ! j) = (vals gr)[k := fl_mult (vals gr ! k) s]
               \<and> vals (rows w ! j) = vals wr))"
proof (intro conjI allI impI)
  assume "valid_alleles gwas \<and> valid_alleles weight \<and> ''effect_size'' \<in> set (cols gwas)"
  with assms show "\<not> isl (harmonize_gwas_and_weight gwas weight)"
    by (simp add: harmonize_returns)
next
  fix g w assume r: "harmonize_gwas_and_weight gwas weight = Inr (g, w)"
  let ?C = "kept_pairs gwas weight"
  from harmonize_InrD [OF assms r] obtain k where
    k: "col_index ''effect_size'' (cols gwas) = Some k"
    and la: "list_all (\<lambda>p. \<not> isl (flip_rows (fst p) (snd p))) (merge_inner (rows gwas) (rows weight))"
    and g: "g = \<lparr>cols = cols gwas,
               rows = map (\<lambda>p. (common_row p)\<lparr>vals := (vals (fst p))
                          [k := fl_mult (vals (fst p) ! k) (projr (flip_rows (fst p) (snd p)))]\<rparr>)
                        ?C\<rparr>"
    and w: "w = \<lparr>cols = cols weight,
               rows = map (\<lambda>p. (common_row p)\<lparr>vals := vals (snd p)\<rparr>) ?C\<rparr>"
    by blast
  show "cols g = cols gwas" "cols w = cols weight" "length (rows w) = length (rows g)"
    by (simp_all add: g w)
  have "map snp_key (rows g) = map (snp_key \<circ> fst) ?C"
    by (simp add: g common_row_def snp_key_def)
  also have "\<dots> = map snp_key (map fst ?C)" by simp
  also have "map fst ?C = filter (\<lambda>r. \<exists>x\<in>set (rows weight). snp_key x = snp_key r
                                     \<and> \<not> isnan (projr (flip_rows r x))) (rows gwas)"
    unfolding kept_pairs_def
    using map_fst_filter_merge_inner [OF dW, of "\<lambda>p. \<not> isnan (projr (flip_rows (fst p) (snd p)))"]
    by simp
  finally show "map snp_key (rows g) =
              map snp_key (filter (\<lambda>r. \<exists>x\<in>set (rows weight). snp_key x = snp_key r
                                     \<and> \<not> isnan (projr (flip_rows r x))) (rows gwas))" .
  fix j assume j: "j < length (rows g)"
  then have jl: "j < length ?C" by (simp add: g)
  define p where "p = ?C ! j"
  from jl have pin: "p \<in> set ?C" by (simp add: p_def)
  from kept_pairs_set [OF pin] have
    gr: "fst p \<in> set (rows gwas)" and wr: "snd p \<in> set (rows weight)"
    and kk: "snp_key (snd p) = snp_key (fst p)"
    and nn: "\<not> isnan (projr (flip_rows (fst p) (snd p)))" by simp_all
  have "(fst p, snd p) \<in> set (merge_inner (rows gwas) (rows weight))"
    unfolding merge_inner_set using gr wr kk by simp
  then have "p \<in> set (merge_inner (rows gwas) (rows weight))" by simp
  with la have "\<not> isl (flip_rows (fst p) (snd p))" unfolding list_all_iff by blast
  then have fs: "flip_rows (fst p) (snd p) = Inr (projr (flip_rows (fst p) (snd p)))" by simp
  from u_check_flip_range [OF fs [unfolded flip_rows_def]] nn
  have s: "projr (flip_rows (fst p) (snd p)) = Fin 1 \<or> projr (flip_rows (fst p) (snd p)) = Fin (- 1)"
    unfolding flip_rows_def by auto
  have rg: "rows g ! j = (common_row p)\<lparr>vals := (vals (fst p))
                          [k := fl_mult (vals (fst p) ! k) (projr (flip_rows (fst p) (snd p)))]\<rparr>"
    using jl by (simp add: g p_def)
  have rw: "rows w ! j = (common_row p)\<lparr>vals := vals (snd p)\<rparr>"
    using jl by (simp add: w p_def)
  have "snp_key (snd p) = snp_key (fst p) \<and> flip_rows (fst p) (snd p) = Inr (projr (flip_rows (fst p) (snd p)))
       \<and> (projr (flip_rows (fst p) (snd p)) = Fin 1 \<or> projr (flip_rows (fst p) (snd p)) = Fin (- 1))
       \<and> col_index ''effect_size'' (cols gwas) = Some k
       \<and> row_id (rows g ! j) = (snpid (fst p), chr (fst p), effect_allele (snd p), non_effect_allele (snd p))
       \<and> row_id (rows w ! j) = (snpid (fst p), chr (fst p), effect_allele (snd p), non_effect_allele (snd p))
       \<and> vals (rows g ! j) = (vals (fst p))[k := fl_mult (vals (fst p) ! k) (projr (flip_rows (fst p) (snd p)))]
       \<and> vals (rows w ! j) = vals (snd p)"
    using kk fs s k by (simp add: rg rw row_id_def common_row_def)
  with gr wr show "\<exists>gr\<in>set (rows gwas). \<exists>wr\<in>set (rows weight). \<exists>s k.
                 snp_key wr = snp_key gr \<and> flip_rows gr wr = Inr s \<and> (s = Fin 1 \<or> s = Fin (- 1))
               \<and> col_index ''effect_size'' (cols gwas) = Some k
               \<and> row_id (rows g ! j) = (snpid gr, chr gr, effect_allele wr, non_effect_allele wr)
               \<and> row_id (rows w ! j) = (snpid gr, chr gr, effect_allele wr, non_effect_allele wr)
               \<and> vals (rows g ! j) = (vals gr)[k := fl_mult (vals gr ! k) s]
               \<and> vals (rows w ! j) = vals wr"
    by blast
qed


theorem harmonize_gwas_and_weight_spec_witness:
  "distinct (map snp_key (rows ex_gwas)) \<and> distinct (map snp_key (rows ex_weight))
   \<and> harmonize_gwas_and_weight ex_gwas ex_weight = Inr (ex_gwas_out, ex_weight_out)
   \<and> cols ex_gwas_out = cols ex_gwas \<and> cols ex_weight_out = cols ex_weight
   \<and> map snp_key (rows ex_gwas_out) = [(''rs1'', ''1'')]
   \<and> length (rows ex_weight_out) = length (rows ex_gwas_out)"
proof -
  from harmonize_gwas_and_weight_spec [OF ex_distinct] ex_harmonize
  have "cols ex_gwas_out = cols ex_gwas \<and> cols ex_weight_out = cols ex_weight
      \<and> length (rows ex_weight_out) = length (rows ex_gwas_out)"
    by blast
  moreover have "map snp_key (rows ex_gwas_out) = [(''rs1'', ''1'')]"
    by (simp add: ex_gwas_out_def snp_key_def)
  ultimately show ?thesis using ex_distinct ex_harmonize by simp
qed

text \<open>
  C2 as stated fails: the first SNP of the example has the sign -1 and the weight 2, and
  the returned weight table still holds 2, not -2.
\<close>

theorem harmonize_weight_not_flipped:
  "harmonize_gwas_and_weight ex_gwas ex_weight = Inr (ex_gwas_out, ex_weight_out)
   \<and> snp_key (rows ex_weight_out ! 0) = snp_key (rows ex_weight ! 0)
   \<and> flip_rows (rows ex_gwas ! 0) (rows ex_weight ! 0) = Inr (Fin (- 1))
   \<and> vals (rows ex_weight ! 0) ! 0 = Fin 2
   \<and> vals (rows ex_weight_out ! 0) ! 0 = Fin 2
   \<and> vals (rows ex_weight_out ! 0) ! 0 \<noteq> fl_mult (vals (rows ex_weight ! 0) ! 0) (Fin (- 1))"
  using ex_harmonize
  by (simp add: ex_gwas_def ex_weight_def ex_weight_out_def snp_key_def flip_rows_def BASE_PAIR_def)

text \<open>
  C10. For tables with unique (snpid, chr) keys the two returned tables have the same
  number of rows and, at every row index, the same snpid, chr, effect allele and
  non-effect allele; with alleles that are bases or missing and an
  \<^verbatim>\<open>effect_size\<close> column the function does return.
\<close>

theorem harmonize_row_aligned:
  assumes "distinct (map snp_key (rows gwas))" and "distinct (map snp_key (rows weight))"
  shows "(valid_alleles gwas \<and> valid_alleles weight \<and> ''effect_size'' \<in> set (cols gwas)
            \<longrightarrow> \<not> isl (harmonize_gwas_and_weight gwas weight))
       \<and> (\<forall>g w. harmonize_gwas_and_weight gwas weight = Inr (g, w) \<longrightarrow>
            length (rows g) = length (rows w)
          \<and> (\<forall>j < length (rows g). row_id (rows g ! j) = row_id (rows w ! j)))"
proof (intro conjI allI impI)
  assume "valid_alleles gwas \<and> valid_alleles weight \<and> ''effect_size'' \<in> set (cols gwas)"
  with assms show "\<not> isl (harmonize_gwas_and_weight gwas weight)"
    by (simp add: harmonize_returns)
next
  fix g w assume r: "harmonize_gwas_and_weight gwas weight = Inr (g, w)"
  from harmonize_InrD [OF assms r] obtain k where
    g: "g = \<lparr>cols = cols gwas,
               rows = map (\<lambda>p. (common_row p)\<lparr>vals := (vals (fst p))
                          [k := fl_mult (vals (fst p) ! k) (projr (flip_rows (fst p) (snd p)))]\<rparr>)
                        (kept_pairs gwas weight)\<rparr>"
    and w: "w = \<lparr>cols = cols weight,
               rows = map (\<lambda>p. (common_row p)\<lparr>vals := vals (snd p)\<rparr>) (kept_pairs gwas weight)\<rparr>"
    by blast
  show "length (rows g) = length (rows w)" by (simp add: g w)
  fix j assume "j < length (rows g)"
  then show "row_id (rows g ! j) = row_id (rows w ! j)"
    by (simp add: g w row_id_def)
qed


theorem harmonize_row_aligned_witness:
  "distinct (map snp_key (rows ex_gwas)) \<and> distinct (map snp_key (rows ex_weight))
   \<and> harmonize_gwas_and_weight ex_gwas ex_weight = Inr (ex_gwas_out, ex_weight_out)
   \<and> length (rows ex_gwas_out) = length (rows ex_weight_out)
   \<and> row_id (rows ex_gwas_out ! 0) = row_id (rows ex_weight_out ! 0)
   \<and> row_id (rows ex_gwas_out ! 0) = (''rs1'', ''1'', Some ''G'', Some ''A'')"
proof -
  from harmonize_row_aligned [OF ex_distinct] ex_harmonize
  have a: "length (rows ex_gwas_out) = length (rows ex_weight_out)
     \<and> (\<forall>j < length (rows ex_gwas_out). row_id (rows ex_gwas_out ! j) = row_id (rows ex_weight_out ! j))"
    by blast
  have "0 < length (rows ex_gwas_out)" by (simp add: ex_gwas_out_def)
  with a have "row_id (rows ex_gwas_out ! 0) = row_id (rows ex_weight_out ! 0)" by blast
  moreover have "row_id (rows ex_gwas_out ! 0) = (''rs1'', ''1'', Some ''G'', Some ''A'')"
    by (simp add: ex_gwas_out_def row_id_def)
  ultimately show ?thesis using a ex_distinct ex_harmonize by simp
qed


subsection \<open>\<^verbatim>\<open>rearrage_df_by_target\<close>\<close>

lemma find_filter: "find P xs = (case filter P xs of [] \<Rightarrow> None | x # _ \<Rightarrow> Some x)"
  by (induction xs) simp_all

lemma merge_left_distinct:
  assumes "distinct (map snp_key R)"
  shows "merge_left L R = map (\<lambda>l. (l, partner R l)) L"
proof (induction L)
  case Nil
  then show ?case by (simp add: merge_left_def)
next
  case (Cons l L)
  have "(case filter (\<lambda>r. snp_key r = snp_key l) R of
           [] \<Rightarrow> [(l, None)] | ms \<Rightarrow> map (\<lambda>r. (l, Some r)) ms) = [(l, partner R l)]"
    using filter_key_cases [OF assms, of "snp_key l"]
    by (auto simp: partner_def find_filter)
  with Cons show ?case by (simp add: merge_left_def)
qed

lemma partner_SomeD: "partner R l = Some d \<Longrightarrow> d \<in> set R \<and> snp_key d = snp_key l"
  unfolding partner_def by (auto simp: find_Some_iff)

lemma partner_None_iff: "partner R l = None \<longleftrightarrow> snp_key l \<notin> snp_key ` set R"
  unfolding partner_def find_None_iff image_iff by metis

lemma partner_distinct:
  "distinct (map snp_key R) \<Longrightarrow> d \<in> set R \<Longrightarrow> snp_key d = snp_key l \<Longrightarrow> partner R l = Some d"
  using filter_key_distinct [of snp_key R d] by (simp add: partner_def find_filter)

lemma rearrage_closed:
  assumes dD: "distinct (map snp_key (rows df))"
  shows "rearrage_df_by_target df target cs =
    (if \<not> list_all (\<lambda>t. \<not> isl (flip_target t (partner (rows df) t))) (rows target)
        \<or> \<not> set cs \<subseteq> set (cols df)
     then Inl KeyError
     else Inr \<lparr>cols = cols df, rows = map (rearranged_row df cs) (rows target)\<rparr>)"
proof -
  let ?P = "map (\<lambda>l. (l, partner (rows df) l)) (rows target)"
  let ?F = "\<lambda>p. projr (flip_target (fst p) (snd p))"
  have cf: "check_flip (map (effect_allele \<circ> fst) ?P) (map (non_effect_allele \<circ> fst) ?P)
              (map (right_allele effect_allele \<circ> snd) ?P)
              (map (right_allele non_effect_allele \<circ> snd) ?P) =
            (if list_all (\<lambda>p. \<not> isl (flip_target (fst p) (snd p))) ?P then Inr (map ?F ?P)
             else Inl KeyError)"
    unfolding check_flip_map by (simp add: flip_target_def)
  have la: "list_all (\<lambda>p. \<not> isl (flip_target (fst p) (snd p))) ?P
        \<longleftrightarrow> list_all (\<lambda>t. \<not> isl (flip_target t (partner (rows df) t))) (rows target)"
    by (simp add: list_all_iff)
  show ?thesis
    unfolding rearrage_df_by_target_def Let_def merge_left_distinct [OF dD] cf la
    by (simp add: rearranged_row_def map2_map_map zip_map_map zip_same_conv_map comp_def
        case_prod_beta)
qed

lemma fl_mult_NaN_right: "fl_mult v NaN = NaN"
  by (cases v) simp_all

lemma scale_vals_nth:
  "k < length cs \<Longrightarrow> k < length vs \<Longrightarrow>
     scale_vals cs vc f vs ! k = (if cs ! k \<in> set vc then fl_mult (vs ! k) f else vs ! k)"
  by (simp add: scale_vals_def)

lemma length_scale_vals: "length (scale_vals cs vc f vs) = min (length cs) (length vs)"
  by (simp add: scale_vals_def)

lemma wf_table_row: "wf_table t \<Longrightarrow> r \<in> set (rows t) \<Longrightarrow> length (vals r) = length (cols t)"
  by (simp add: wf_table_def list_all_iff)

lemma length_right_vals:
  assumes "wf_table df"
  shows "length (right_vals (length (cols df)) (partner (rows df) t)) = length (cols df)"
proof (cases "partner (rows df) t")
  case None
  then show ?thesis by (simp add: right_vals_def)
next
  case (Some d)
  with partner_SomeD [OF Some] wf_table_row [OF assms] show ?thesis by (simp add: right_vals_def)
qed

lemma flip_target_valid:
  assumes "valid_alleles df" "valid_alleles target" "t \<in> set (rows target)"
  shows "\<not> isl (flip_target t (partner (rows df) t))"
proof (cases "partner (rows df) t")
  case None
  then show ?thesis by (simp add: flip_target_def right_allele_def u_check_flip_missing)
next
  case (Some d)
  from partner_SomeD [OF Some] have "d \<in> set (rows df)" by simp
  from flip_rows_valid [OF assms(2,1) assms(3) this] Some show ?thesis
    by (simp add: flip_target_def right_allele_def flip_rows_def)
qed

lemma rearranged_row_NaN:
  assumes dD: "distinct (map snp_key (rows df))" and wf: "wf_table df"
    and u: "snp_key t \<notin> snp_key ` set (rows df)
            \<or> (\<exists>d\<in>set (rows df). snp_key d = snp_key t \<and> flip_rows t d = Inr NaN)"
    and k: "k < length (cols df)" "cols df ! k \<in> set cs"
  shows "vals (rearranged_row df cs t) ! k = NaN"
proof -
  have f: "projr (flip_target t (partner (rows df) t)) = NaN"
    using u
  proof
    assume "snp_key t \<notin> snp_key ` set (rows df)"
    then have "partner (rows df) t = None" by (simp add: partner_None_iff)
    then show ?thesis by (simp add: flip_target_def right_allele_def u_check_flip_missing)
  next
    assume "\<exists>d\<in>set (rows df). snp_key d = snp_key t \<and> flip_rows t d = Inr NaN"
    then obtain d where d: "d \<in> set (rows df)" "snp_key d = snp_key t" "flip_rows t d = Inr NaN"
      by blast
    from partner_distinct [OF dD d(1,2)] d(3) show ?thesis
      by (simp add: flip_target_def right_allele_def flip_rows_def)
  qed
  from k length_right_vals [OF wf, of t] show ?thesis
    by (simp add: rearranged_row_def scale_vals_nth f fl_mult_NaN_right)
qed

lemma ex_rearrage:
  "rearrage_df_by_target ex_weight ex_target [''idp1''] = Inr ex_weight_rearranged"
  by (simp add: rearrage_df_by_target_def ex_weight_def ex_target_def ex_weight_rearranged_def
      merge_left_def snp_key_def right_allele_def right_vals_def scale_vals_def BASE_PAIR_def)

lemma ex_weight_wf: "wf_table ex_weight"
  by (simp add: wf_table_def ex_weight_def)

text \<open>
  C3. For a table \<^verbatim>\<open>df\<close> with unique (snpid, chr) keys and any target table, the
  function returns (when the alleles are bases or missing and the designated columns are
  columns of \<^verbatim>\<open>df\<close>) a table with as many rows as the target, with the target's
  (snpid, chr) sequence and alleles, whatever the overlap of \<^verbatim>\<open>df\<close> with the target.
  A target row whose SNP is absent from \<^verbatim>\<open>df\<close>, or whose alleles harmonize to an
  undetermined sign, is kept, with NaN in every designated value column.
\<close>

theorem rearrage_df_by_target_shape:
  assumes dD: "distinct (map snp_key (rows df))" and wf: "wf_table df"
  shows "(valid_alleles df \<and> valid_alleles target \<and> set cs \<subseteq> set (cols df)
            \<longrightarrow> \<not> isl (rearrage_df_by_target df target cs))
       \<and> (\<forall>res. rearrage_df_by_target df target cs = Inr res \<longrightarrow>
            length (rows res) = length (rows target)
          \<and> map snp_key (rows res) = map snp_key (rows target)
          \<and> map row_id (rows res) = map row_id (rows target)
          \<and> wf_table res
          \<and> (\<forall>j < length (rows target).
                (snp_key (rows target ! j) \<notin> snp_key ` set (rows df)
                 \<or> (\<exists>d\<in>set (rows df). snp_key d = snp_key (rows target ! j)
                        \<and> flip_rows (rows target ! j) d = Inr NaN))
                \<longrightarrow> (\<forall>k < length (cols df). cols df ! k \<in> set cs
                        \<longrightarrow> vals (rows res ! j) ! k = NaN)))"
proof (intro conjI allI impI)
  assume a: "valid_alleles df \<and> valid_alleles target \<and> set cs \<subseteq> set (cols df)"
  then have vd: "valid_alleles df" and vt: "valid_alleles target" by simp_all
  have "list_all (\<lambda>t. \<not> isl (flip_target t (partner (rows df) t))) (rows target)"
    unfolding list_all_iff
  proof
    fix t assume "t \<in> set (rows target)"
    then show "\<not> isl (flip_target t (partner (rows df) t))"
      by (rule flip_target_valid [OF vd vt])
  qed
  with a show "\<not> isl (rearrage_df_by_target df target cs)"
    by (simp add: rearrage_closed [OF dD])
next
  fix res assume r: "rearrage_df_by_target df target cs = Inr res"
  then have res: "res = \<lparr>cols = cols df, rows = map (rearranged_row df cs) (rows target)\<rparr>"
    unfolding rearrage_closed [OF dD] by (simp split: if_splits)
  show "length (rows res) = length (rows target)" by (simp add: res)
  show "map snp_key (rows res) = map snp_key (rows target)"
    by (simp add: res rearranged_row_def snp_key_def)
  show "map row_id (rows res) = map row_id (rows target)"
    by (simp add: res rearranged_row_def row_id_def)
  show "wf_table res"
    by (simp add: res wf_table_def list_all_iff rearranged_row_def length_scale_vals
        length_right_vals [OF wf])
  fix j k
  assume j: "j < length (rows target)"
    and u: "snp_key (rows target ! j) \<notin> snp_key ` set (rows df)
            \<or> (\<exists>d\<in>set (rows df). snp_key d = snp_key (rows target ! j)
                   \<and> flip_rows (rows target ! j) d = Inr NaN)"
    and k: "k < length (cols df)" "cols df ! k \<in> set cs"
  from j have "rows res ! j = rearranged_row df cs (rows target ! j)" by (simp add: res)
  with rearranged_row_NaN [OF dD wf u k] show "vals (rows res ! j) ! k = NaN" by simp
qed

theorem rearrage_df_by_target_shape_witness:
  "distinct (map snp_key (rows ex_weight)) \<and> wf_table ex_weight
   \<and> rearrage_df_by_target ex_weight ex_target [''idp1''] = Inr ex_weight_rearranged
   \<and> length (rows ex_weight_rearranged) = length (rows ex_target)
   \<and> map snp_key (rows ex_weight_rearranged) = map snp_key (rows ex_target)
   \<and> snp_key (rows ex_target ! 0) \<notin> snp_key ` set (rows ex_weight)
   \<and> vals (rows ex_weight_rearranged ! 0) ! 0 = NaN"
proof -
  have absent: "snp_key (rows ex_target ! 0) \<notin> snp_key ` set (rows ex_weight)"
    by (simp add: ex_target_def ex_weight_def snp_key_def)
  have j: "0 < length (rows ex_target)" by (simp add: ex_target_def)
  have k: "0 < length (cols ex_weight)" "cols ex_weight ! 0 \<in> set [''idp1'']"
    by (simp_all add: ex_weight_def)
  from rearrage_df_by_target_shape [OF ex_distinct(2) ex_weight_wf, of ex_target "[''idp1'']"]
    ex_rearrage
  have a: "length (rows ex_weight_rearranged) = length (rows ex_target)
     \<and> map snp_key (rows ex_weight_rearranged) = map snp_key (rows ex_target)
     \<and> (\<forall>j < length (rows ex_target).
                (snp_key (rows ex_target ! j) \<notin> snp_key ` set (rows ex_weight)
                 \<or> (\<exists>d\<in>set (rows ex_weight). snp_key d = snp_key (rows ex_target ! j)
                        \<and> flip_rows (rows ex_target ! j) d = Inr NaN))
                \<longrightarrow> (\<forall>k < length (cols ex_weight). cols ex_weight ! k \<in> set [''idp1'']
                        \<longrightarrow> vals (rows ex_weight_rearranged ! j) ! k = NaN))"
    by blast
  with absent j k have "vals (rows ex_weight_rearranged ! 0) ! 0 = NaN" by blast
  with a absent ex_distinct(2) ex_weight_wf ex_rearrage show ?thesis by simp
qed


subsection \<open>\<^verbatim>\<open>impute_b_from_z\<close>\<close>











subsection \<open>\<^verbatim>\<open>genomic_control\<close>\<close>

text \<open>The sort behind the median gives a sorted rearrangement of a NaN-free array.\<close>

lemma mset_fl_insort: "mset (fl_insort x xs) = add_mset x (mset xs)"
  by (induction xs) simp_all

lemma mset_fl_sort: "mset (fl_sort xs) = mset xs"
  unfolding fl_sort_def by (induction xs) (simp_all add: mset_fl_insort)

lemma fl_le_total: "\<not> isnan a \<Longrightarrow> \<not> isnan b \<Longrightarrow> fl_le a b \<or> fl_le b a"
  by (cases a; cases b) auto

lemma fl_le_trans: "fl_le a b \<Longrightarrow> fl_le b c \<Longrightarrow> fl_le a c"
  by (cases a; cases b; cases c) auto

lemma set_fl_insort: "set (fl_insort x xs) = insert x (set xs)"
  by (induction xs) auto

lemma sorted_fl_insort:
  "\<not> isnan x \<Longrightarrow> \<forall>y\<in>set xs. \<not> isnan y \<Longrightarrow> sorted_wrt fl_le xs \<Longrightarrow> sorted_wrt fl_le (fl_insort x xs)"
proof (induction xs)
  case Nil
  then show ?case by simp
next
  case (Cons y ys)
  show ?case
  proof (cases "fl_le x y")
    case True
    with Cons.prems show ?thesis by (auto intro: fl_le_trans)
  next
    case False
    with Cons.prems fl_le_total [of x y] have "fl_le y x" by auto
    with False Cons show ?thesis by (auto simp: set_fl_insort)
  qed
qed

lemma sorted_fl_sort: "\<forall>y\<in>set xs. \<not> isnan y \<Longrightarrow> sorted_wrt fl_le (fl_sort xs)"
proof (induction xs)
  case Nil
  then show ?case by (simp add: fl_sort_def)
next
  case (Cons x xs)
  then have "sorted_wrt fl_le (fl_sort xs)" by simp
  moreover have "\<forall>y\<in>set (fl_sort xs). \<not> isnan y"
    using Cons.prems mset_fl_sort [of xs] by (metis list.set_intros(2) set_mset_mset)
  ultimately have "sorted_wrt fl_le (fl_insort x (fl_sort xs))"
    using Cons.prems by (intro sorted_fl_insort) simp_all
  then show ?case by (simp add: fl_sort_def)
qed









subsection \<open>\<^verbatim>\<open>load_idp\<close>\<close>








subsection \<open>The chromosome loop\<close>









































subsection \<open>The empirical null\<close>

text \<open>
  C6 (a defect of the code). With three IDPs and two null columns appended after them,
  the z-scores are \<open>[z1, z2, z3, n1, n2]\<close>. The code takes \<^verbatim>\<open>z[2:]\<close>, that is
  \<open>[z3, n1, n2]\<close>, as the null sample and keeps \<^verbatim>\<open>z[:2]\<close>, that is \<open>[z1, z2]\<close>, as the
  z-scores of the IDPs; and reading the number of repeats raises as soon as the flag is
  set.
\<close>

theorem empirical_null_split_takes_leading:
  "nrepeat_null_of True = Inl AttributeError
   \<and> fst (empirical_null_split 2 [Fin 1, Fin 2, Fin 3, Fin 10, Fin 20]) = [Fin 3, Fin 10, Fin 20]
   \<and> fst (snd (empirical_null_split 2 [Fin 1, Fin 2, Fin 3, Fin 10, Fin 20])) = [Fin 1, Fin 2]"
  by (simp add: nrepeat_null_of_def empirical_null_split_def Let_def)


end
